theory Spec2Isabelle
  imports Main "HOL-Library.Word" "HOL-Library.AList"
begin

section \<open>The Jupyter terminal client (main.go)\<close>

text \<open>
  The client of main.go talks to three libraries: net/http and net/url, encoding/json, and
  gorilla/websocket. None of them is part of the program. Their answers are taken from an
  environment record \<open>env\<close>, one field for each library call the program makes, and every
  call with an effect outside the process is appended to a trace of events. A function of
  the program takes the trace so far and returns the extended trace; calls whose answer may
  depend on what happened before (a write on a connection that was closed, say) receive the
  trace as the history.
\<close>

subsection \<open>Values\<close>

text \<open>
  A Go \<open>error\<close> value: the text its \<open>Error()\<close> method returns and, when the value is a
  \<open>*websocket.CloseError\<close>, the close code it carries.
\<close>

datatype error = Error (msg: string) (close_code: "nat option")

text \<open>
  What encoding/json stores in an \<open>interface{}\<close>: nil, bool, float64 (kept as its 64 bits),
  string, \<open>[]interface{}\<close> and \<open>map[string]interface{}\<close>.
\<close>

datatype jvalue =
    JNull
  | JBool bool
  | JNumber "64 word"
  | JString string
  | JArray "jvalue list"
  | JObject "(string \<times> jvalue) list"

text \<open>\<open>type Message []interface{}\<close>\<close>

type_synonym Message = "jvalue list"

text \<open>A non-nil \<open>*websocket.Conn\<close>; the field \<open>conn\<close> below is \<open>None\<close> for the nil pointer.\<close>

datatype Conn = Conn nat

record JupyterClient =
  baseURL :: string
  token :: string
  terminalID :: string
  conn :: "Conn option"

text \<open>
  The parts of \<open>http.Request\<close>, \<open>http.Response\<close> and \<open>url.URL\<close> the program touches. The
  header, a \<open>map[string][]string\<close>, is kept as an association list with one entry for a key.
\<close>

record Request =
  Method :: string
  ReqURL :: string
  Header :: "(string \<times> string list) list"

record Response =
  StatusCode :: int
  Status :: string
  Body :: string

record URL =
  Scheme :: string
  Opaque :: string
  User :: "string option"
  Host :: string
  Path :: string
  RawPath :: string
  RawQuery :: string
  Fragment :: string

text \<open>\<open>url.Values\<close> is \<open>map[string][]string\<close>.\<close>

type_synonym Values = "string \<rightharpoonup> string list"

subsection \<open>Effects\<close>

datatype event =
    Stdout string                \<comment> \<open>fmt.Print, fmt.Printf, fmt.Println: the text written\<close>
  | Log string                   \<comment> \<open>log.Printf, log.Println, log.Fatalf: the message\<close>
  | Sleep nat                    \<comment> \<open>time.Sleep, in milliseconds\<close>
  | HttpDo Request               \<comment> \<open>client.Do(req)\<close>
  | BodyClose                    \<comment> \<open>resp.Body.Close()\<close>
  | WsDial string                \<comment> \<open>dialer.Dial(target, header)\<close>
  | WsRead Conn                  \<comment> \<open>conn.ReadMessage()\<close>
  | WsWrite Conn nat string      \<comment> \<open>conn.WriteMessage(messageType, data)\<close>
  | WsClose Conn                 \<comment> \<open>conn.Close()\<close>
  | Scan                         \<comment> \<open>scanner.Scan() on standard input\<close>
  | GoReadMessages               \<comment> \<open>go client.ReadMessages()\<close>
  | Exit nat                     \<comment> \<open>the process ends with this status\<close>

type_synonym trace = "event list"

text \<open>The library calls. A call that takes a \<open>trace\<close> is answered from the history.\<close>

record env =
  json_Marshal :: "Message \<Rightarrow> error + string"
  json_Unmarshal :: "string \<Rightarrow> error + Message"
  json_Decode :: "string \<Rightarrow> error + (string \<rightharpoonup> jvalue)"
  http_NewRequest_err :: "string \<Rightarrow> string \<Rightarrow> error option"
  http_Do :: "Request \<Rightarrow> error + Response"
  url_Parse :: "string \<Rightarrow> error + URL"
  url_Query :: "URL \<Rightarrow> Values"
  Values_Encode :: "Values \<Rightarrow> string"
  url_String :: "URL \<Rightarrow> string"
  ws_Dial :: "string \<Rightarrow> error + Conn"
  ws_WriteMessage :: "trace \<Rightarrow> Conn \<Rightarrow> nat \<Rightarrow> string \<Rightarrow> error option"
  ws_Close :: "trace \<Rightarrow> Conn \<Rightarrow> error option"

text \<open>
  A call either returns or panics (a method called through the nil connection pointer
  dereferences nil).
\<close>

datatype 'a outcome = Return 'a | Panic

subsection \<open>Library functions with a fixed meaning\<close>

text \<open>strings.HasSuffix, strings.TrimSuffix, strings.Join.\<close>

definition HasSuffix :: "string \<Rightarrow> string \<Rightarrow> bool" where
  "HasSuffix s suffix =
     (length s \<ge> length suffix \<and> drop (length s - length suffix) s = suffix)"

definition TrimSuffix :: "string \<Rightarrow> string \<Rightarrow> string" where
  "TrimSuffix s suffix =
     (if HasSuffix s suffix then take (length s - length suffix) s else s)"

fun Join :: "string list \<Rightarrow> string \<Rightarrow> string" where
  "Join [] sep = []"
| "Join [a] sep = a"
| "Join (a # b # rest) sep = a @ sep @ Join (b # rest) sep"

text \<open>
  websocket.IsUnexpectedCloseError: the error is a close error whose code is none of the
  expected ones.
\<close>

definition IsUnexpectedCloseError :: "error \<Rightarrow> nat list \<Rightarrow> bool" where
  "IsUnexpectedCloseError err expectedCodes =
     (case close_code err of
        None \<Rightarrow> False
      | Some code \<Rightarrow> \<not> code \<in> set expectedCodes)"

definition TextMessage :: nat where "TextMessage = 1"
definition CloseGoingAway :: nat where "CloseGoingAway = 1001"
definition CloseAbnormalClosure :: nat where "CloseAbnormalClosure = 1006"

text \<open>
  http.NewRequest(method, url, nil): the library's check of its arguments, and the request
  it builds, with an empty header.
\<close>

definition http_NewRequest :: "env \<Rightarrow> string \<Rightarrow> string \<Rightarrow> error + Request" where
  "http_NewRequest e m u =
     (case http_NewRequest_err e m u of
        Some err \<Rightarrow> Inl err
      | None \<Rightarrow> Inr \<lparr>Method = m, ReqURL = u, Header = []\<rparr>)"

text \<open>\<open>req.Header.Set(key, value)\<close>, for a key that is in canonical form already.\<close>

definition Header_Set :: "Request \<Rightarrow> string \<Rightarrow> string \<Rightarrow> Request" where
  "Header_Set req key v = req\<lparr>Header := AList.update key [v] (Header req)\<rparr>"

subsection \<open>NewJupyterClient (lines 31-36)\<close>

definition NewJupyterClient :: "string \<Rightarrow> string \<Rightarrow> JupyterClient" where
  "NewJupyterClient url tok =
     \<lparr>baseURL = TrimSuffix url ''/'', token = tok, terminalID = [], conn = None\<rparr>"

subsection \<open>CreateTerminal (lines 39-78)\<close>

definition CreateTerminal ::
  "env \<Rightarrow> JupyterClient \<Rightarrow> trace \<Rightarrow> error option \<times> JupyterClient \<times> trace" where
  "CreateTerminal e c t =
     (let url = baseURL c @ ''/api/terminals'' in
      case http_NewRequest e ''POST'' url of
        Inl err \<Rightarrow> (Some err, c, t)
      | Inr req0 \<Rightarrow>
          (let req = (if token c \<noteq> []
                      then Header_Set req0 ''Authorization'' (''token '' @ token c)
                      else req0);
               t1 = t @ [HttpDo req]
           in (case http_Do e req of
                 Inl err \<Rightarrow> (Some err, c, t1)
               | Inr resp \<Rightarrow>
                   if StatusCode resp \<noteq> 200 \<and> StatusCode resp \<noteq> 201 then
                     (Some (Error (''failed to create terminal: '' @ Status resp @ '' - ''
                                     @ Body resp) None),
                      c, t1 @ [BodyClose])
                   else
                     (case json_Decode e (Body resp) of
                        Inl err \<Rightarrow> (Some err, c, t1 @ [BodyClose])
                      | Inr result \<Rightarrow>
                          (case result ''name'' of
                             Some (JString name) \<Rightarrow>
                               (None, c\<lparr>terminalID := name\<rparr>,
                                t1 @ [Stdout (''Created terminal: '' @ name @ ''\<newline>''),
                                      BodyClose])
                           | _ \<Rightarrow>
                               (Some (Error ''terminal ID not found in response'' None),
                                c, t1 @ [BodyClose]))))))"

subsection \<open>Connect (lines 81-116)\<close>

definition Connect ::
  "env \<Rightarrow> JupyterClient \<Rightarrow> trace \<Rightarrow> error option \<times> JupyterClient \<times> trace" where
  "Connect e c t =
     (case url_Parse e (baseURL c) of
        Inl err \<Rightarrow> (Some err, c, t)
      | Inr u0 \<Rightarrow>
          (let u1 = (if Scheme u0 = ''https'' then u0\<lparr>Scheme := ''wss''\<rparr>
                     else u0\<lparr>Scheme := ''ws''\<rparr>);
               u2 = u1\<lparr>Path := ''/terminals/websocket/'' @ terminalID c\<rparr>;
               u3 = (if token c \<noteq> []
                     then (let q = url_Query e u2;
                               q' = q(''token'' \<mapsto> [token c])
                           in u2\<lparr>RawQuery := Values_Encode e q'\<rparr>)
                     else u2);
               t1 = t @ [Stdout (''Connecting to: '' @ url_String e u3 @ ''\<newline>''),
                         WsDial (url_String e u3)]
           in (case ws_Dial e (url_String e u3) of
                 Inl err \<Rightarrow> (Some (Error (''websocket dial error: '' @ msg err) None), c, t1)
               | Inr k \<Rightarrow> (None, c\<lparr>conn := Some k\<rparr>, t1))))"

subsection \<open>ReadMessages (lines 119-156)\<close>

text \<open>
  What the successive calls of \<open>conn.ReadMessage()\<close> return: a frame or an error. The loop
  is run on the list of the answers the connection will ever give; when the list is used
  up the next call blocks for good, and the loop is then \<open>Blocked\<close> in that call.
\<close>

datatype recv = Frame string | RecvError error

datatype loop_end = Returned | Blocked

fun ReadMessages_loop :: "env \<Rightarrow> Conn \<Rightarrow> recv list \<Rightarrow> trace \<Rightarrow> loop_end \<times> recv list \<times> trace" where
  "ReadMessages_loop e k [] t = (Blocked, [], t @ [WsRead k])"
| "ReadMessages_loop e k (RecvError err # rest) t =
     (Returned, rest,
      if IsUnexpectedCloseError err [CloseGoingAway, CloseAbnormalClosure]
      then t @ [WsRead k, Log (''websocket error: '' @ msg err)]
      else t @ [WsRead k])"
| "ReadMessages_loop e k (Frame message # rest) t =
     (case json_Unmarshal e message of
        Inl err \<Rightarrow>
          ReadMessages_loop e k rest
            (t @ [WsRead k, Log (''failed to parse message: '' @ msg err)])
      | Inr m \<Rightarrow>
          if length m < 2 then ReadMessages_loop e k rest (t @ [WsRead k])
          else
            (case m ! 0 of
               JString msgType \<Rightarrow>
                 if msgType = ''stdout'' then
                   (case m ! 1 of
                      JString output \<Rightarrow> ReadMessages_loop e k rest (t @ [WsRead k, Stdout output])
                    | _ \<Rightarrow> ReadMessages_loop e k rest (t @ [WsRead k]))
                 else if msgType = ''setup'' then
                   ReadMessages_loop e k rest (t @ [WsRead k, Log ''Terminal ready''])
                 else if msgType = ''disconnect'' then
                   (Returned, rest, t @ [WsRead k, Log ''Terminal disconnected''])
                 else ReadMessages_loop e k rest (t @ [WsRead k])
             | _ \<Rightarrow> ReadMessages_loop e k rest (t @ [WsRead k])))"

definition ReadMessages ::
  "env \<Rightarrow> JupyterClient \<Rightarrow> recv list \<Rightarrow> trace \<Rightarrow> loop_end outcome \<times> recv list \<times> trace" where
  "ReadMessages e c inbound t =
     (case conn c of
        None \<Rightarrow> (Panic, inbound, t)
      | Some k \<Rightarrow>
          (case ReadMessages_loop e k inbound t of
             (r, rest, t') \<Rightarrow> (Return r, rest, t')))"

subsection \<open>SendCommand (lines 159-172)\<close>

definition SendCommand ::
  "env \<Rightarrow> JupyterClient \<Rightarrow> string \<Rightarrow> trace \<Rightarrow> error option outcome \<times> trace" where
  "SendCommand e c cmd t =
     (let cmd' = (if \<not> HasSuffix cmd ''\<newline>'' then cmd @ ''\<newline>'' else cmd);
          m = [JString ''stdin'', JString cmd']
      in case json_Marshal e m of
           Inl err \<Rightarrow> (Return (Some err), t)
         | Inr data \<Rightarrow>
             (case conn c of
                None \<Rightarrow> (Panic, t)
              | Some k \<Rightarrow>
                  (Return (ws_WriteMessage e t k TextMessage data),
                   t @ [WsWrite k TextMessage data])))"

subsection \<open>Close (lines 175-185)\<close>

text \<open>Close leaves every field of the client as it is, so it returns no client.\<close>

definition Close :: "env \<Rightarrow> JupyterClient \<Rightarrow> trace \<Rightarrow> error option outcome \<times> trace" where
  "Close e c t =
     (case conn c of
        Some k \<Rightarrow>
          (case SendCommand e c ''exit'' t of
             (Panic, t1) \<Rightarrow> (Panic, t1)
           | (Return _, t1) \<Rightarrow>
               (Return (ws_Close e (t1 @ [Sleep 500]) k), t1 @ [Sleep 500, WsClose k]))
      | None \<Rightarrow> (Return None, t))"

subsection \<open>InteractiveShell (lines 188-222)\<close>

text \<open>
  Standard input is the list of the lines \<open>scanner.Text()\<close> will give; after the last one
  \<open>scanner.Scan()\<close> returns false. The loop returns the lines it has not read.
\<close>

fun InteractiveShell_loop ::
  "env \<Rightarrow> JupyterClient \<Rightarrow> string list \<Rightarrow> trace \<Rightarrow> unit outcome \<times> string list \<times> trace" where
  "InteractiveShell_loop e c [] t = (Return (), [], t @ [Stdout ''\<newline>$ '', Scan])"
| "InteractiveShell_loop e c (cmd # rest) t =
     (let t1 = t @ [Stdout ''\<newline>$ '', Scan] in
      if cmd = ''exit'' then (Return (), rest, t1)
      else
        (case SendCommand e c cmd t1 of
           (Panic, t2) \<Rightarrow> (Panic, rest, t2)
         | (Return (Some err), t2) \<Rightarrow>
             (Return (), rest, t2 @ [Log (''failed to send command: '' @ msg err)])
         | (Return None, t2) \<Rightarrow> InteractiveShell_loop e c rest (t2 @ [Sleep 100])))"

definition InteractiveShell ::
  "env \<Rightarrow> JupyterClient \<Rightarrow> string list \<Rightarrow> trace \<Rightarrow> unit outcome \<times> string list \<times> trace" where
  "InteractiveShell e c stdin t =
     InteractiveShell_loop e c stdin
       (t @ [Sleep 1000,
             Stdout ''\<newline>Jupyter Terminal Shell\<newline>'',
             Stdout ''Type 'exit' or press Ctrl+C to quit\<newline>'',
             Stdout ''----------------------------------------\<newline>''])"

subsection \<open>main (lines 224-269)\<close>

text \<open>The command line after \<open>flag.Parse()\<close>.\<close>

record flags =
  serverURL :: string
  tokenFlag :: string
  termID :: string
  Args :: "string list"

text \<open>
  Lines 249-268, once the connection is open. \<open>defer client.Close()\<close> runs when main
  returns, and when main panics; \<open>log.Fatalf\<close> ends the process through \<open>os.Exit(1)\<close>, which
  runs no deferred call.
\<close>

definition main_session :: "env \<Rightarrow> JupyterClient \<Rightarrow> string list \<Rightarrow> string list \<Rightarrow> trace \<Rightarrow> trace" where
  "main_session e client args stdin t =
     (let t1 = t @ [GoReadMessages] in
      if length args > 0 then
        (let cmd = Join args '' '' in
         case SendCommand e client cmd t1 of
           (Panic, t2) \<Rightarrow> snd (Close e client t2) @ [Exit 2]
         | (Return (Some err), t2) \<Rightarrow>
             t2 @ [Log (''Failed to send command: '' @ msg err), Exit 1]
         | (Return None, t2) \<Rightarrow>
             snd (Close e client (t2 @ [Sleep 2000, Stdout ''\<newline>Goodbye!\<newline>''])) @ [Exit 0])
      else
        (case InteractiveShell e client stdin t1 of
           (Panic, _, t2) \<Rightarrow> snd (Close e client t2) @ [Exit 2]
         | (Return _, _, t2) \<Rightarrow>
             snd (Close e client (t2 @ [Stdout ''\<newline>Goodbye!\<newline>''])) @ [Exit 0]))"

text \<open>Lines 245-248, then the rest of main.\<close>

definition main_connect :: "env \<Rightarrow> JupyterClient \<Rightarrow> string list \<Rightarrow> string list \<Rightarrow> trace \<Rightarrow> trace" where
  "main_connect e client args stdin t =
     (case Connect e client t of
        (Some err, _, t1) \<Rightarrow> t1 @ [Log (''Failed to connect: '' @ msg err), Exit 1]
      | (None, client', t1) \<Rightarrow> main_session e client' args stdin t1)"

definition main :: "env \<Rightarrow> flags \<Rightarrow> string list \<Rightarrow> trace" where
  "main e fl stdin =
     (let client = NewJupyterClient (serverURL fl) (tokenFlag fl) in
      if termID fl \<noteq> [] then
        main_connect e (client\<lparr>terminalID := termID fl\<rparr>) (Args fl) stdin
          [Stdout (''Using existing terminal: '' @ termID fl @ ''\<newline>'')]
      else
        (case CreateTerminal e client [] of
           (Some err, _, t1) \<Rightarrow> t1 @ [Log (''Failed to create terminal: '' @ msg err), Exit 1]
         | (None, client', t1) \<Rightarrow> main_connect e client' (Args fl) stdin t1))"

subsection \<open>The claim of the specification about \<open>send\<close>, in its words\<close>

text \<open>
  The text the specification says is transmitted for \<open>cmd\<close>: \<open>cmd\<close> itself when it already
  ends in a line feed, \<open>cmd\<close> followed by a line feed otherwise.
\<close>

definition spec_normalized :: "string \<Rightarrow> string" where
  "spec_normalized cmd =
     (if cmd \<noteq> [] \<and> last cmd = CHR 0x0A then cmd else cmd @ [CHR 0x0A])"

subsection \<open>A concrete environment\<close>

text \<open>
  An environment to run the program on: a server at \<open>http://localhost:8888\<close> that creates
  terminal \<open>1\<close>, and a connection whose writes and close fail once it has been closed.
  The encoder escapes the quote, the backslash and the line feed, which is all the
  examples need.
\<close>

definition demo_escape :: "char \<Rightarrow> string" where
  "demo_escape ch =
     (if ch = CHR 0x0A then [CHR 0x5C, CHR ''n'']
      else if ch = CHR 0x22 then [CHR 0x5C, CHR 0x22]
      else if ch = CHR 0x5C then [CHR 0x5C, CHR 0x5C]
      else [ch])"

fun demo_render :: "jvalue \<Rightarrow> string" where
  "demo_render (JString s) = [CHR 0x22] @ concat (map demo_escape s) @ [CHR 0x22]"
| "demo_render _ = ''null''"

definition demo_Marshal :: "Message \<Rightarrow> error + string" where
  "demo_Marshal m = Inr (''['' @ Join (map demo_render m) '','' @ '']'')"

definition frame_setup :: string where
  "frame_setup = ''['' @ [CHR 0x22] @ ''setup'' @ [CHR 0x22] @ '']''"

definition frame_stdout_a :: string where
  "frame_stdout_a =
     ''['' @ [CHR 0x22] @ ''stdout'' @ [CHR 0x22] @ '','' @ [CHR 0x22] @ ''a'' @ [CHR 0x5C] @ ''n''
       @ [CHR 0x22] @ '']''"

definition frame_stdout_b :: string where
  "frame_stdout_b =
     ''['' @ [CHR 0x22] @ ''stdout'' @ [CHR 0x22] @ '','' @ [CHR 0x22] @ ''b'' @ [CHR 0x5C] @ ''n''
       @ [CHR 0x22] @ '']''"

definition frame_disconnect :: string where
  "frame_disconnect = ''['' @ [CHR 0x22] @ ''disconnect'' @ [CHR 0x22] @ '']''"

definition frame_disconnect_1 :: string where
  "frame_disconnect_1 = ''['' @ [CHR 0x22] @ ''disconnect'' @ [CHR 0x22] @ '',1]''"

definition frame_garbage :: string where
  "frame_garbage = ''{not json''"

text \<open>The number 1 as a float64.\<close>

definition float64_one :: "64 word" where
  "float64_one = 0x3FF0000000000000"

definition demo_Unmarshal :: "string \<Rightarrow> error + Message" where
  "demo_Unmarshal s =
     (if s = frame_setup then Inr [JString ''setup'']
      else if s = frame_stdout_a then Inr [JString ''stdout'', JString ''a\<newline>'']
      else if s = frame_stdout_b then Inr [JString ''stdout'', JString ''b\<newline>'']
      else if s = frame_disconnect then Inr [JString ''disconnect'']
      else if s = frame_disconnect_1 then Inr [JString ''disconnect'', JNumber float64_one]
      else Inl (Error ''invalid character'' None))"

definition body_name_1 :: string where
  "body_name_1 =
     ''{'' @ [CHR 0x22] @ ''name'' @ [CHR 0x22] @ '':'' @ [CHR 0x22] @ ''1'' @ [CHR 0x22] @ ''}''"

definition demo_Decode :: "string \<Rightarrow> error + (string \<rightharpoonup> jvalue)" where
  "demo_Decode s =
     (if s = body_name_1 then Inr [''name'' \<mapsto> JString ''1'']
      else if s = ''{}'' then Inr Map.empty
      else Inl (Error ''invalid character'' None))"

definition demo_Parse :: "string \<Rightarrow> error + URL" where
  "demo_Parse s =
     (if s = ''http://localhost:8888'' then
        Inr \<lparr>Scheme = ''http'', Opaque = [], User = None, Host = ''localhost:8888'',
             Path = [], RawPath = [], RawQuery = [], Fragment = []\<rparr>
      else if s = ''https://jupyter.company.com'' then
        Inr \<lparr>Scheme = ''https'', Opaque = [], User = None, Host = ''jupyter.company.com'',
             Path = [], RawPath = [], RawQuery = [], Fragment = []\<rparr>
      else Inl (Error ''invalid URL'' None))"

definition demo_Encode :: "Values \<Rightarrow> string" where
  "demo_Encode q = (case q ''token'' of Some [v] \<Rightarrow> ''token='' @ v | _ \<Rightarrow> [])"

definition demo_String :: "URL \<Rightarrow> string" where
  "demo_String u =
     Scheme u @ ''://'' @ Host u @ Path u @ (if RawQuery u = [] then [] else ''?'' @ RawQuery u)"

definition closed_error :: error where
  "closed_error = Error ''use of closed network connection'' None"

definition demo_env :: env where
  "demo_env =
     \<lparr>json_Marshal = demo_Marshal,
      json_Unmarshal = demo_Unmarshal,
      json_Decode = demo_Decode,
      http_NewRequest_err = (\<lambda>m u. None),
      http_Do = (\<lambda>req. Inr \<lparr>StatusCode = 201, Status = ''201 Created'', Body = body_name_1\<rparr>),
      url_Parse = demo_Parse,
      url_Query = (\<lambda>u. Map.empty),
      Values_Encode = demo_Encode,
      url_String = demo_String,
      ws_Dial = (\<lambda>target. Inr (Conn 0)),
      ws_WriteMessage = (\<lambda>t k ty data. if WsClose k \<in> set t then Some closed_error else None),
      ws_Close = (\<lambda>t k. if WsClose k \<in> set t then Some closed_error else None)\<rparr>"

text \<open>The same environment with a connection on which every write fails.\<close>

definition broken_env :: env where
  "broken_env = demo_env\<lparr>ws_WriteMessage := (\<lambda>t k ty data. Some (Error ''broken pipe'' None))\<rparr>"

definition demo_client :: JupyterClient where
  "demo_client =
     \<lparr>baseURL = ''http://localhost:8888'', token = [], terminalID = ''1'', conn = Some (Conn 0)\<rparr>"

text \<open>The text \<open>["stdin","..."]\<close> around an escaped payload.\<close>

definition wire_stdin :: "string \<Rightarrow> string" where
  "wire_stdin escaped =
     ''['' @ [CHR 0x22] @ ''stdin'' @ [CHR 0x22] @ '','' @ [CHR 0x22] @ escaped @ [CHR 0x22] @ '']''"

definition wire_ls :: string where
  "wire_ls = wire_stdin (''ls'' @ [CHR 0x5C, CHR ''n''])"

definition wire_exit :: string where
  "wire_exit = wire_stdin (''exit'' @ [CHR 0x5C, CHR ''n''])"

definition wire_git_status :: string where
  "wire_git_status = wire_stdin (''git status'' @ [CHR 0x5C, CHR ''n''])"

text \<open>Servers that answer the creation request with a failure, and with no name.\<close>

definition env_500 :: env where
  "env_500 =
     demo_env\<lparr>http_Do :=
       (\<lambda>req. Inr \<lparr>StatusCode = 500, Status = ''500 Internal Server Error'', Body = ''boom''\<rparr>)\<rparr>"

definition env_noname :: env where
  "env_noname =
     demo_env\<lparr>http_Do := (\<lambda>req. Inr \<lparr>StatusCode = 200, Status = ''200 OK'', Body = ''{}''\<rparr>)\<rparr>"

definition fresh_client :: JupyterClient where
  "fresh_client = NewJupyterClient ''http://localhost:8888/'' []"

definition company_client :: JupyterClient where
  "company_client =
     \<lparr>baseURL = ''https://jupyter.company.com'', token = ''abc123'', terminalID = ''1'',
      conn = None\<rparr>"

definition attach_flags :: flags where
  "attach_flags =
     \<lparr>serverURL = ''http://localhost:8888'', tokenFlag = [], termID = ''1'', Args = [''ls'']\<rparr>"

subsection \<open>Reading a trace\<close>

fun is_HttpDo :: "event \<Rightarrow> bool" where
  "is_HttpDo (HttpDo req) = True"
| "is_HttpDo _ = False"

section \<open>Properties\<close>

subsection \<open>Evaluating the concrete environment\<close>

lemmas demo_simps = demo_env_def demo_client_def demo_Marshal_def demo_escape_def
  spec_normalized_def wire_stdin_def wire_ls_def wire_exit_def wire_git_status_def
  TextMessage_def

lemmas frame_simps = frame_setup_def frame_stdout_a_def frame_stdout_b_def
  frame_disconnect_def frame_disconnect_1_def frame_garbage_def demo_Unmarshal_def

subsection \<open>SendCommand\<close>

lemma HasSuffix_newline: "HasSuffix s [CHR 0x0A] \<longleftrightarrow> s \<noteq> [] \<and> last s = CHR 0x0A"
  by (cases s rule: rev_cases) (auto simp: HasSuffix_def)

lemma normalized_eq:
  "(if \<not> HasSuffix cmd ''\<newline>'' then cmd @ ''\<newline>'' else cmd) = spec_normalized cmd"
  by (simp add: HasSuffix_newline spec_normalized_def)

lemma SendCommand_conn:
  assumes "conn c = Some k"
  shows "SendCommand e c cmd t =
     (case json_Marshal e [JString ''stdin'', JString (spec_normalized cmd)] of
        Inl err \<Rightarrow> (Return (Some err), t)
      | Inr data \<Rightarrow> (Return (ws_WriteMessage e t k TextMessage data),
                     t @ [WsWrite k TextMessage data]))"
  using assms by (simp add: SendCommand_def normalized_eq Let_def split: sum.splits)

text \<open>
  Claim C4. On an open connection \<open>k\<close>, \<open>SendCommand cmd\<close> makes exactly one call of
  \<open>WriteMessage\<close>, of type text, and its data is the encoding of the two-element message
  \<open>["stdin", cmd']\<close>, where \<open>cmd'\<close> is \<open>cmd\<close> if \<open>cmd\<close> already ends in a line feed and \<open>cmd\<close>
  followed by a line feed otherwise; what \<open>SendCommand\<close> returns is what that write returns.
  The encoder is the library's: \<open>data\<close> is what it gives for that message.
\<close>

theorem SendCommand_transmits:
  assumes "conn c = Some k"
      and "json_Marshal e [JString ''stdin'', JString (spec_normalized cmd)] = Inr data"
  shows "SendCommand e c cmd t =
           (Return (ws_WriteMessage e t k TextMessage data), t @ [WsWrite k TextMessage data])"
  using assms by (simp add: SendCommand_conn)

text \<open>\<open>send("ls")\<close> and \<open>send("ls\n")\<close> both put \<open>["stdin","ls\n"]\<close> on the wire.\<close>

theorem SendCommand_transmits_witness:
  "conn demo_client = Some (Conn 0)
   \<and> json_Marshal demo_env [JString ''stdin'', JString (spec_normalized ''ls'')] = Inr wire_ls
   \<and> json_Marshal demo_env [JString ''stdin'', JString (spec_normalized ''ls\<newline>'')] = Inr wire_ls
   \<and> SendCommand demo_env demo_client ''ls'' [] = (Return None, [WsWrite (Conn 0) 1 wire_ls])
   \<and> SendCommand demo_env demo_client ''ls\<newline>'' [] = (Return None, [WsWrite (Conn 0) 1 wire_ls])"
proof -
  have c: "conn demo_client = Some (Conn 0)"
    by (simp add: demo_client_def)
  have m1: "json_Marshal demo_env [JString ''stdin'', JString (spec_normalized ''ls'')] = Inr wire_ls"
    by (simp add: demo_simps)
  have m2: "json_Marshal demo_env [JString ''stdin'', JString (spec_normalized ''ls\<newline>'')] = Inr wire_ls"
    by (simp add: demo_simps)
  have w: "ws_WriteMessage demo_env [] (Conn 0) TextMessage wire_ls = None"
    by (simp add: demo_env_def)
  show ?thesis
    using c m1 m2 w
      SendCommand_transmits [OF c m1, where t = "[]"]
      SendCommand_transmits [OF c m2, where t = "[]"]
    by (simp add: TextMessage_def)
qed

subsection \<open>ReadMessages\<close>

lemma ReadMessages_conn:
  "conn c = Some k \<Longrightarrow>
   ReadMessages e c inbound t =
     (case ReadMessages_loop e k inbound t of (r, rest, t') \<Rightarrow> (Return r, rest, t'))"
  by (simp add: ReadMessages_def)



text \<open>
  Claim C3, as the specification states it, fails. On the four frames \<open>["setup"]\<close>,
  \<open>["stdout","a\n"]\<close>, \<open>["stdout","b\n"]\<close>, \<open>["disconnect"]\<close> the loop writes \<open>a\n\<close> and \<open>b\n\<close>
  and nothing else, but the fourth frame has one element: it is dropped by the length
  check before its type is looked at, and the loop calls \<open>ReadMessage\<close> a fifth time.
\<close>

theorem ReadMessages_one_element_disconnect_blocks:
  "ReadMessages demo_env demo_client
     [Frame frame_setup, Frame frame_stdout_a, Frame frame_stdout_b, Frame frame_disconnect] [] =
   (Return Blocked, [],
    [WsRead (Conn 0), WsRead (Conn 0), Stdout ''a\<newline>'', WsRead (Conn 0), Stdout ''b\<newline>'',
     WsRead (Conn 0), WsRead (Conn 0)])"
  by (simp add: ReadMessages_def demo_client_def demo_env_def frame_simps)

text \<open>
  Claim C3, amended. For frames that decode to \<open>["setup"]\<close>, \<open>["stdout","a\n"]\<close>,
  \<open>["stdout","b\n"]\<close> and a disconnect message, in that order, the loop writes exactly
  \<open>a\n\<close> then \<open>b\n\<close> to standard output. When the disconnect message has the one element
  \<open>"disconnect"\<close> the loop drops it and goes on to the next receive; when it has two or
  more elements the loop returns after this fourth receive and leaves the rest of the
  connection's answers unread.
\<close>

theorem ReadMessages_script:
  assumes "conn c = Some k"
      and "json_Unmarshal e f1 = Inr [JString ''setup'']"
      and "json_Unmarshal e f2 = Inr [JString ''stdout'', JString ''a\<newline>'']"
      and "json_Unmarshal e f3 = Inr [JString ''stdout'', JString ''b\<newline>'']"
  shows "(json_Unmarshal e f4 = Inr [JString ''disconnect''] \<longrightarrow>
            ReadMessages e c (Frame f1 # Frame f2 # Frame f3 # Frame f4 # rest) t =
            ReadMessages e c rest
              (t @ [WsRead k, WsRead k, Stdout ''a\<newline>'', WsRead k, Stdout ''b\<newline>'', WsRead k]))
       \<and> (json_Unmarshal e f4 = Inr (JString ''disconnect'' # x # xs) \<longrightarrow>
            ReadMessages e c (Frame f1 # Frame f2 # Frame f3 # Frame f4 # rest) t =
            (Return Returned, rest,
             t @ [WsRead k, WsRead k, Stdout ''a\<newline>'', WsRead k, Stdout ''b\<newline>'', WsRead k,
                  Log ''Terminal disconnected'']))"
  using assms by (simp add: ReadMessages_conn)

theorem ReadMessages_script_witness:
  "conn demo_client = Some (Conn 0)
   \<and> json_Unmarshal demo_env frame_setup = Inr [JString ''setup'']
   \<and> json_Unmarshal demo_env frame_stdout_a = Inr [JString ''stdout'', JString ''a\<newline>'']
   \<and> json_Unmarshal demo_env frame_stdout_b = Inr [JString ''stdout'', JString ''b\<newline>'']
   \<and> json_Unmarshal demo_env frame_disconnect = Inr [JString ''disconnect'']
   \<and> json_Unmarshal demo_env frame_disconnect_1 = Inr [JString ''disconnect'', JNumber float64_one]
   \<and> ReadMessages demo_env demo_client
        [Frame frame_setup, Frame frame_stdout_a, Frame frame_stdout_b, Frame frame_disconnect,
         Frame frame_stdout_a] [] =
      ReadMessages demo_env demo_client [Frame frame_stdout_a]
        [WsRead (Conn 0), WsRead (Conn 0), Stdout ''a\<newline>'', WsRead (Conn 0), Stdout ''b\<newline>'',
         WsRead (Conn 0)]
   \<and> ReadMessages demo_env demo_client
        [Frame frame_setup, Frame frame_stdout_a, Frame frame_stdout_b, Frame frame_disconnect_1,
         Frame frame_stdout_a] [] =
      (Return Returned, [Frame frame_stdout_a],
       [WsRead (Conn 0), WsRead (Conn 0), Stdout ''a\<newline>'', WsRead (Conn 0), Stdout ''b\<newline>'',
        WsRead (Conn 0), Log ''Terminal disconnected''])"
proof -
  have c: "conn demo_client = Some (Conn 0)"
    by (simp add: demo_client_def)
  have u1: "json_Unmarshal demo_env frame_setup = Inr [JString ''setup'']"
    by (simp add: demo_env_def frame_simps)
  have u2: "json_Unmarshal demo_env frame_stdout_a = Inr [JString ''stdout'', JString ''a\<newline>'']"
    by (simp add: demo_env_def frame_simps)
  have u3: "json_Unmarshal demo_env frame_stdout_b = Inr [JString ''stdout'', JString ''b\<newline>'']"
    by (simp add: demo_env_def frame_simps)
  have u4: "json_Unmarshal demo_env frame_disconnect = Inr [JString ''disconnect'']"
    by (simp add: demo_env_def frame_simps)
  have u5: "json_Unmarshal demo_env frame_disconnect_1 = Inr [JString ''disconnect'', JNumber float64_one]"
    by (simp add: demo_env_def frame_simps)
  show ?thesis
    using c u1 u2 u3 u4 u5
      ReadMessages_script [OF c u1 u2 u3, where ?f4.0 = frame_disconnect
        and rest = "[Frame frame_stdout_a]" and t = "[]"]
      ReadMessages_script [OF c u1 u2 u3, where ?f4.0 = frame_disconnect_1
        and x = "JNumber float64_one" and xs = "[]" and rest = "[Frame frame_stdout_a]" and t = "[]"]
    by simp
qed

subsection \<open>CreateTerminal\<close>

lemmas provision_simps = fresh_client_def NewJupyterClient_def TrimSuffix_def HasSuffix_def
  http_NewRequest_def demo_env_def env_500_def env_noname_def demo_Decode_def body_name_1_def

text \<open>
  Claim C6. Once the creation request has been built and answered with a response, the
  result of \<open>CreateTerminal\<close> is decided by the status and the body. A status other than 200
  and 201 gives the error \<open>failed to create terminal: <status> - <body>\<close> and leaves the
  session identifier as it was. With status 200 or 201: a body that does not decode gives
  the decoder's error, a decoded body whose \<open>name\<close> is absent or not a string gives the
  error \<open>terminal ID not found in response\<close>, both leaving the identifier as it was; a body
  with a string \<open>name\<close> gives no error and sets the identifier to that name. No error is
  returned only with status 200 or 201.
\<close>

theorem CreateTerminal_status:
  assumes "http_NewRequest e ''POST'' (baseURL c @ ''/api/terminals'') = Inr req0"
      and "http_Do e (if token c \<noteq> []
                      then Header_Set req0 ''Authorization'' (''token '' @ token c)
                      else req0) = Inr resp"
  shows "(StatusCode resp \<noteq> 200 \<and> StatusCode resp \<noteq> 201 \<longrightarrow>
            fst (CreateTerminal e c t) =
              Some (Error (''failed to create terminal: '' @ Status resp @ '' - '' @ Body resp) None)
            \<and> terminalID (fst (snd (CreateTerminal e c t))) = terminalID c)
       \<and> ((StatusCode resp = 200 \<or> StatusCode resp = 201)
            \<and> json_Decode e (Body resp) = Inr result
            \<and> (\<forall>name. result ''name'' \<noteq> Some (JString name)) \<longrightarrow>
            fst (CreateTerminal e c t) = Some (Error ''terminal ID not found in response'' None)
            \<and> terminalID (fst (snd (CreateTerminal e c t))) = terminalID c)
       \<and> ((StatusCode resp = 200 \<or> StatusCode resp = 201)
            \<and> json_Decode e (Body resp) = Inl err \<longrightarrow>
            fst (CreateTerminal e c t) = Some err
            \<and> terminalID (fst (snd (CreateTerminal e c t))) = terminalID c)
       \<and> ((StatusCode resp = 200 \<or> StatusCode resp = 201)
            \<and> json_Decode e (Body resp) = Inr result
            \<and> result ''name'' = Some (JString name) \<longrightarrow>
            fst (CreateTerminal e c t) = None
            \<and> terminalID (fst (snd (CreateTerminal e c t))) = name)
       \<and> (fst (CreateTerminal e c t) = None \<longrightarrow>
            StatusCode resp = 200 \<or> StatusCode resp = 201)"
  using assms
  by (auto simp: CreateTerminal_def Let_def split: option.splits jvalue.splits sum.splits)

text \<open>A server answering 201 with a name, one answering 500, one answering 200 with \<open>{}\<close>.\<close>

theorem CreateTerminal_status_witness:
  "fst (CreateTerminal demo_env fresh_client []) = None
   \<and> terminalID (fst (snd (CreateTerminal demo_env fresh_client []))) = ''1''
   \<and> fst (CreateTerminal env_500 fresh_client []) =
       Some (Error ''failed to create terminal: 500 Internal Server Error - boom'' None)
   \<and> terminalID (fst (snd (CreateTerminal env_500 fresh_client []))) = []
   \<and> fst (CreateTerminal env_noname fresh_client []) =
       Some (Error ''terminal ID not found in response'' None)
   \<and> terminalID (fst (snd (CreateTerminal env_noname fresh_client []))) = []"
proof -
  let ?req = "\<lparr>Method = ''POST'', ReqURL = ''http://localhost:8888/api/terminals'', Header = []\<rparr>"
  let ?ok = "\<lparr>StatusCode = 201, Status = ''201 Created'', Body = body_name_1\<rparr>"
  let ?bad = "\<lparr>StatusCode = 500, Status = ''500 Internal Server Error'', Body = ''boom''\<rparr>"
  let ?nn = "\<lparr>StatusCode = 200, Status = ''200 OK'', Body = ''{}''\<rparr>"
  have r1: "http_NewRequest demo_env ''POST'' (baseURL fresh_client @ ''/api/terminals'') = Inr ?req"
    by (simp add: provision_simps)
  have r2: "http_NewRequest env_500 ''POST'' (baseURL fresh_client @ ''/api/terminals'') = Inr ?req"
    by (simp add: provision_simps)
  have r3: "http_NewRequest env_noname ''POST'' (baseURL fresh_client @ ''/api/terminals'') = Inr ?req"
    by (simp add: provision_simps)
  have d1: "http_Do demo_env (if token fresh_client \<noteq> []
              then Header_Set ?req ''Authorization'' (''token '' @ token fresh_client)
              else ?req) = Inr ?ok"
    by (simp add: provision_simps)
  have d2: "http_Do env_500 (if token fresh_client \<noteq> []
              then Header_Set ?req ''Authorization'' (''token '' @ token fresh_client)
              else ?req) = Inr ?bad"
    by (simp add: provision_simps)
  have d3: "http_Do env_noname (if token fresh_client \<noteq> []
              then Header_Set ?req ''Authorization'' (''token '' @ token fresh_client)
              else ?req) = Inr ?nn"
    by (simp add: provision_simps)
  have j1: "json_Decode demo_env (Body ?ok) = Inr [''name'' \<mapsto> JString ''1'']"
    by (simp add: provision_simps)
  have j3: "json_Decode env_noname (Body ?nn) = Inr Map.empty"
    by (simp add: provision_simps)
  have t0: "terminalID fresh_client = []"
    by (simp add: provision_simps)
  show ?thesis
    using CreateTerminal_status [OF r1 d1, where t = "[]" and result = "[''name'' \<mapsto> JString ''1'']"
            and name = "''1''"]
          CreateTerminal_status [OF r2 d2, where t = "[]"]
          CreateTerminal_status [OF r3 d3, where t = "[]" and result = Map.empty]
          j1 j3 t0
    by simp
qed

lemma CreateTerminal_client:
  "CreateTerminal e c t = (r, c', t') \<Longrightarrow> c' = c \<or> (\<exists>name. r = None \<and> c' = c\<lparr>terminalID := name\<rparr>)"
  unfolding CreateTerminal_def Let_def
  by (auto split: sum.splits option.splits jvalue.splits if_splits)

text \<open>
  Claim C10. When \<open>CreateTerminal\<close> returns no error, the client it leaves is the client it
  was given with only \<open>terminalID\<close> set: \<open>baseURL\<close>, \<open>token\<close> and \<open>conn\<close> are the same. A client
  made by \<open>NewJupyterClient\<close> has the empty \<open>terminalID\<close> and the nil connection.
\<close>

theorem CreateTerminal_frame:
  "(CreateTerminal e c t = (None, c', t') \<longrightarrow>
      baseURL c' = baseURL c \<and> token c' = token c \<and> conn c' = conn c
      \<and> c' = c\<lparr>terminalID := terminalID c'\<rparr>)
   \<and> terminalID (NewJupyterClient url tok) = []
   \<and> conn (NewJupyterClient url tok) = None"
proof -
  have "c' = c\<lparr>terminalID := terminalID c'\<rparr>" if "CreateTerminal e c t = (None, c', t')"
    using CreateTerminal_client [OF that] by auto
  moreover have "terminalID (NewJupyterClient url tok) = []" "conn (NewJupyterClient url tok) = None"
    by (simp_all add: NewJupyterClient_def)
  ultimately show ?thesis
    by (metis JupyterClient.select_convs JupyterClient.surjective JupyterClient.update_convs)
qed

theorem CreateTerminal_frame_witness:
  "CreateTerminal demo_env fresh_client [] =
     (None, fresh_client\<lparr>terminalID := ''1''\<rparr>,
      [HttpDo \<lparr>Method = ''POST'', ReqURL = ''http://localhost:8888/api/terminals'', Header = []\<rparr>,
       Stdout ''Created terminal: 1\<newline>'', BodyClose])
   \<and> baseURL (fresh_client\<lparr>terminalID := ''1''\<rparr>) = ''http://localhost:8888''
   \<and> token (fresh_client\<lparr>terminalID := ''1''\<rparr>) = []
   \<and> conn (fresh_client\<lparr>terminalID := ''1''\<rparr>) = None
   \<and> terminalID fresh_client = [] \<and> conn fresh_client = None"
proof -
  have run: "CreateTerminal demo_env fresh_client [] =
     (None, fresh_client\<lparr>terminalID := ''1''\<rparr>,
      [HttpDo \<lparr>Method = ''POST'', ReqURL = ''http://localhost:8888/api/terminals'', Header = []\<rparr>,
       Stdout ''Created terminal: 1\<newline>'', BodyClose])"
    by (simp add: CreateTerminal_def provision_simps)
  have b: "baseURL fresh_client = ''http://localhost:8888''"
    by (simp add: provision_simps)
  have tk: "token fresh_client = []"
    by (simp add: provision_simps)
  show ?thesis
    using run b tk CreateTerminal_frame [where e = demo_env and c = fresh_client and t = "[]"
      and c' = "fresh_client\<lparr>terminalID := ''1''\<rparr>"
      and url = "''http://localhost:8888/''" and tok = "[]"]
    by (simp add: fresh_client_def)
qed

subsection \<open>Connect\<close>

lemmas connect_simps = demo_env_def demo_Parse_def demo_Encode_def demo_String_def
  company_client_def demo_client_def

text \<open>
  Claim C7. When the base URL parses to \<open>u\<close>, \<open>Connect\<close> dials the text of \<open>u\<close> with the scheme
  set to \<open>wss\<close> if it was \<open>https\<close> and to \<open>ws\<close> if it was anything else, the path set to
  \<open>/terminals/websocket/\<close> followed by the session identifier, and the query \<open>token\<close> set to
  the credential when the credential is not empty; with an empty credential the query
  of \<open>u\<close> is kept as it is. The same text is printed before the dial.
\<close>

theorem Connect_target:
  assumes "url_Parse e (baseURL c) = Inr u"
      and "target =
             url_String e
               (u\<lparr>Scheme := (if Scheme u = ''https'' then ''wss'' else ''ws''),
                  Path := ''/terminals/websocket/'' @ terminalID c,
                  RawQuery :=
                    (if token c \<noteq> []
                     then Values_Encode e
                            ((url_Query e
                                (u\<lparr>Scheme := (if Scheme u = ''https'' then ''wss'' else ''ws''),
                                   Path := ''/terminals/websocket/'' @ terminalID c\<rparr>))
                             (''token'' \<mapsto> [token c]))
                     else RawQuery u)\<rparr>)"
  shows "snd (snd (Connect e c t)) =
           t @ [Stdout (''Connecting to: '' @ target @ ''\<newline>''), WsDial target]"
  using assms
  by (simp add: Connect_def Let_def split: sum.splits)

theorem Connect_target_witness:
  "url_Parse demo_env (baseURL company_client) =
     Inr \<lparr>Scheme = ''https'', Opaque = [], User = None, Host = ''jupyter.company.com'',
          Path = [], RawPath = [], RawQuery = [], Fragment = []\<rparr>
   \<and> snd (snd (Connect demo_env company_client [])) =
       [Stdout ''Connecting to: wss://jupyter.company.com/terminals/websocket/1?token=abc123\<newline>'',
        WsDial ''wss://jupyter.company.com/terminals/websocket/1?token=abc123'']
   \<and> url_Parse demo_env (baseURL demo_client) =
     Inr \<lparr>Scheme = ''http'', Opaque = [], User = None, Host = ''localhost:8888'',
          Path = [], RawPath = [], RawQuery = [], Fragment = []\<rparr>
   \<and> snd (snd (Connect demo_env demo_client [])) =
       [Stdout ''Connecting to: ws://localhost:8888/terminals/websocket/1\<newline>'',
        WsDial ''ws://localhost:8888/terminals/websocket/1'']"
proof -
  let ?u1 = "\<lparr>Scheme = ''https'', Opaque = [], User = None, Host = ''jupyter.company.com'',
          Path = [], RawPath = [], RawQuery = [], Fragment = []\<rparr>"
  let ?u2 = "\<lparr>Scheme = ''http'', Opaque = [], User = None, Host = ''localhost:8888'',
          Path = [], RawPath = [], RawQuery = [], Fragment = []\<rparr>"
  have p1: "url_Parse demo_env (baseURL company_client) = Inr ?u1"
    by (simp add: connect_simps)
  have p2: "url_Parse demo_env (baseURL demo_client) = Inr ?u2"
    by (simp add: connect_simps)
  show ?thesis
    using p1 p2
      Connect_target [OF p1 refl, where t = "[]"]
      Connect_target [OF p2 refl, where t = "[]"]
    by (simp add: connect_simps)
qed

subsection \<open>Close\<close>

lemma exit_normalized: "spec_normalized ''exit'' = ''exit\<newline>''"
  by (simp add: spec_normalized_def)

text \<open>
  Claim C2, as the specification states it, fails in its second part. \<open>Close\<close> never
  clears the \<open>conn\<close> field, so a second \<open>Close\<close> finds the connection non-nil and sends the
  exit command through it once more, sleeps, and closes it again; here the connection
  refuses the second write and the second close with an error, which \<open>Close\<close> ignores for
  the write and returns for the close.
\<close>

theorem Close_twice_sends_exit_twice:
  "snd (Close demo_env demo_client (snd (Close demo_env demo_client []))) =
     [WsWrite (Conn 0) 1 wire_exit, Sleep 500, WsClose (Conn 0),
      WsWrite (Conn 0) 1 wire_exit, Sleep 500, WsClose (Conn 0)]"
  by (simp add: Close_def SendCommand_def HasSuffix_def demo_simps)

text \<open>
  Claim C2, amended. \<open>Close\<close> on a client whose connection is nil does nothing and returns
  no error. A second \<open>Close\<close> never panics, but on a client with a connection it is not a
  no-op: it calls \<open>WriteMessage\<close> with the exit command again, sleeps 500 ms, calls the
  connection's \<open>Close\<close> again and returns what that call returns.
\<close>

theorem Close_twice:
  "(conn c = None \<longrightarrow> Close e c t = (Return None, t))
   \<and> fst (Close e c (snd (Close e c t))) \<noteq> Panic
   \<and> (conn c = Some k \<and> json_Marshal e [JString ''stdin'', JString ''exit\<newline>''] = Inr data \<longrightarrow>
        Close e c (snd (Close e c t)) =
          (Return (ws_Close e (snd (Close e c t) @ [WsWrite k TextMessage data, Sleep 500]) k),
           snd (Close e c t) @ [WsWrite k TextMessage data, Sleep 500, WsClose k]))"
proof (cases "conn c")
  case None
  then show ?thesis by (simp add: Close_def)
next
  case (Some k')
  have np: "fst (Close e c u) \<noteq> Panic" for u
    using Some by (simp add: Close_def SendCommand_conn split: sum.splits)
  have "Close e c u =
          (Return (ws_Close e (u @ [WsWrite k' TextMessage data, Sleep 500]) k'),
           u @ [WsWrite k' TextMessage data, Sleep 500, WsClose k'])"
    if "json_Marshal e [JString ''stdin'', JString ''exit\<newline>''] = Inr data" for u
    using Some that by (simp add: Close_def SendCommand_conn exit_normalized)
  with Some np show ?thesis by simp
qed

theorem Close_twice_witness:
  "conn (demo_client\<lparr>conn := None\<rparr>) = None
   \<and> Close demo_env (demo_client\<lparr>conn := None\<rparr>) [] = (Return None, [])
   \<and> conn demo_client = Some (Conn 0)
   \<and> json_Marshal demo_env [JString ''stdin'', JString ''exit\<newline>''] = Inr wire_exit
   \<and> snd (Close demo_env demo_client []) = [WsWrite (Conn 0) 1 wire_exit, Sleep 500, WsClose (Conn 0)]
   \<and> Close demo_env demo_client (snd (Close demo_env demo_client [])) =
       (Return (Some closed_error),
        [WsWrite (Conn 0) 1 wire_exit, Sleep 500, WsClose (Conn 0),
         WsWrite (Conn 0) 1 wire_exit, Sleep 500, WsClose (Conn 0)])"
proof -
  have n: "conn (demo_client\<lparr>conn := None\<rparr>) = None"
    by simp
  have c: "conn demo_client = Some (Conn 0)"
    by (simp add: demo_client_def)
  have m: "json_Marshal demo_env [JString ''stdin'', JString ''exit\<newline>''] = Inr wire_exit"
    by (simp add: demo_simps)
  have first: "snd (Close demo_env demo_client []) =
                 [WsWrite (Conn 0) 1 wire_exit, Sleep 500, WsClose (Conn 0)]"
    by (simp add: Close_def SendCommand_def HasSuffix_def demo_simps)
  have cl: "ws_Close demo_env
              ([WsWrite (Conn 0) 1 wire_exit, Sleep 500, WsClose (Conn 0)]
                 @ [WsWrite (Conn 0) TextMessage wire_exit, Sleep 500]) (Conn 0) = Some closed_error"
    by (simp add: demo_env_def)
  show ?thesis
    using n c m first cl
      Close_twice [where c = "demo_client\<lparr>conn := None\<rparr>" and e = demo_env and t = "[]"]
      Close_twice [where c = demo_client and e = demo_env and t = "[]" and k = "Conn 0"
        and data = wire_exit]
    by (simp add: TextMessage_def)
qed

subsection \<open>main: the single-shot mode\<close>

text \<open>
  Claim C9. With at least one positional argument and the connection open, the part of
  main after the connect makes exactly one call of \<open>WriteMessage\<close> before the teardown: its
  data is the encoding of \<open>["stdin", cmd']\<close> for the arguments joined with single spaces
  and ended with a line feed. No \<open>Scan\<close> of standard input occurs. When the write succeeds
  main sleeps two seconds, prints the farewell and runs \<open>Close\<close>; when it fails main logs
  and exits with status 1.
\<close>

theorem single_shot_sends_once:
  assumes "args \<noteq> []"
      and "conn c = Some k"
      and "json_Marshal e [JString ''stdin'', JString (spec_normalized (Join args '' ''))] = Inr data"
  shows "main_session e c args stdin t =
           (case ws_WriteMessage e (t @ [GoReadMessages]) k TextMessage data of
              Some err \<Rightarrow>
                t @ [GoReadMessages, WsWrite k TextMessage data,
                     Log (''Failed to send command: '' @ msg err), Exit 1]
            | None \<Rightarrow>
                snd (Close e c (t @ [GoReadMessages, WsWrite k TextMessage data, Sleep 2000,
                                     Stdout ''\<newline>Goodbye!\<newline>''])) @ [Exit 0])"
  using assms
  by (simp add: main_session_def SendCommand_conn Let_def split: option.splits)

text \<open>The arguments \<open>git status\<close>, on a healthy and on a broken connection.\<close>

theorem single_shot_sends_once_witness:
  "[''git'', ''status''] \<noteq> []
   \<and> conn demo_client = Some (Conn 0)
   \<and> json_Marshal demo_env
        [JString ''stdin'', JString (spec_normalized (Join [''git'', ''status''] '' ''))] =
      Inr wire_git_status
   \<and> main_session demo_env demo_client [''git'', ''status''] [''ls'', ''pwd''] [] =
        [GoReadMessages, WsWrite (Conn 0) 1 wire_git_status, Sleep 2000,
         Stdout ''\<newline>Goodbye!\<newline>'',
         WsWrite (Conn 0) 1 wire_exit, Sleep 500, WsClose (Conn 0), Exit 0]
   \<and> main_session broken_env demo_client [''git'', ''status''] [''ls'', ''pwd''] [] =
        [GoReadMessages, WsWrite (Conn 0) 1 wire_git_status,
         Log ''Failed to send command: broken pipe'', Exit 1]"
proof -
  have a: "[''git'', ''status''] \<noteq> ([] :: string list)"
    by simp
  have c: "conn demo_client = Some (Conn 0)"
    by (simp add: demo_client_def)
  have m1: "json_Marshal demo_env
        [JString ''stdin'', JString (spec_normalized (Join [''git'', ''status''] '' ''))] =
      Inr wire_git_status"
    by (simp add: demo_simps)
  have m2: "json_Marshal broken_env
        [JString ''stdin'', JString (spec_normalized (Join [''git'', ''status''] '' ''))] =
      Inr wire_git_status"
    by (simp add: broken_env_def demo_simps)
  have w1: "ws_WriteMessage demo_env ([] @ [GoReadMessages]) (Conn 0) TextMessage wire_git_status = None"
    by (simp add: demo_env_def)
  have w2: "ws_WriteMessage broken_env ([] @ [GoReadMessages]) (Conn 0) TextMessage wire_git_status
              = Some (Error ''broken pipe'' None)"
    by (simp add: broken_env_def)
  have cl: "snd (Close demo_env demo_client
                   ([] @ [GoReadMessages, WsWrite (Conn 0) TextMessage wire_git_status, Sleep 2000,
                          Stdout ''\<newline>Goodbye!\<newline>''])) =
            [GoReadMessages, WsWrite (Conn 0) 1 wire_git_status, Sleep 2000,
             Stdout ''\<newline>Goodbye!\<newline>'',
             WsWrite (Conn 0) 1 wire_exit, Sleep 500, WsClose (Conn 0)]"
    by (simp add: Close_def SendCommand_def HasSuffix_def demo_simps)
  show ?thesis
    using a c m1 w1 w2 cl
      single_shot_sends_once [OF a c m1, where stdin = "[''ls'', ''pwd'']" and t = "[]"]
      single_shot_sends_once [OF a c m2, where stdin = "[''ls'', ''pwd'']" and t = "[]"]
    by (simp add: TextMessage_def)
qed

subsection \<open>Every step extends the trace, and only CreateTerminal sends an HTTP request\<close>

lemma SendCommand_ext:
  "\<exists>l. snd (SendCommand e c cmd t) = t @ l \<and> filter is_HttpDo l = []"
  by (simp add: SendCommand_def Let_def split: sum.splits option.splits)

lemma Close_ext:
  "\<exists>l. snd (Close e c t) = t @ l \<and> filter is_HttpDo l = []"
proof (cases "conn c")
  case None
  then show ?thesis by (simp add: Close_def)
next
  case (Some k)
  obtain r t1 where s: "SendCommand e c ''exit'' t = (r, t1)"
    by (cases "SendCommand e c ''exit'' t")
  obtain l where l: "t1 = t @ l" "filter is_HttpDo l = []"
    using SendCommand_ext [of e c "''exit''" t] s by auto
  show ?thesis
    using Some s l by (cases r) (simp_all add: Close_def)
qed

lemma InteractiveShell_loop_ext:
  "\<exists>l. snd (snd (InteractiveShell_loop e c stdin t)) = t @ l \<and> filter is_HttpDo l = []"
proof (induction stdin arbitrary: t)
  case Nil
  show ?case by simp
next
  case (Cons cmd rest)
  let ?t1 = "t @ [Stdout ''\<newline>$ '', Scan]"
  obtain r t2 where s: "SendCommand e c cmd ?t1 = (r, t2)"
    by (cases "SendCommand e c cmd ?t1")
  obtain l where l: "t2 = ?t1 @ l" "filter is_HttpDo l = []"
    using SendCommand_ext [of e c cmd ?t1] s by auto
  obtain l' where l': "snd (snd (InteractiveShell_loop e c rest (t2 @ [Sleep 100]))) =
                         (t2 @ [Sleep 100]) @ l'" "filter is_HttpDo l' = []"
    using Cons.IH [of "t2 @ [Sleep 100]"] by auto
  show ?case
  proof (cases "cmd = ''exit''")
    case True
    then show ?thesis by (simp add: Let_def)
  next
    case False
    show ?thesis
    proof (cases r)
      case Panic
      with False s l show ?thesis by (simp add: Let_def)
    next
      case (Return x)
      with False s l l' show ?thesis by (cases x) (simp_all add: Let_def)
    qed
  qed
qed

lemma InteractiveShell_ext:
  "\<exists>l. snd (snd (InteractiveShell e c stdin t)) = t @ l \<and> filter is_HttpDo l = []"
proof -
  let ?t0 = "t @ [Sleep 1000,
             Stdout ''\<newline>Jupyter Terminal Shell\<newline>'',
             Stdout ''Type 'exit' or press Ctrl+C to quit\<newline>'',
             Stdout ''----------------------------------------\<newline>'']"
  obtain l where "snd (snd (InteractiveShell_loop e c stdin ?t0)) = ?t0 @ l" "filter is_HttpDo l = []"
    using InteractiveShell_loop_ext [of e c stdin ?t0] by auto
  then show ?thesis by (simp add: InteractiveShell_def)
qed

lemma Close_then_exit_ext:
  assumes "u = t @ l" and "filter is_HttpDo l = []"
  shows "\<exists>l'. snd (Close e c u) @ [Exit n] = t @ l' \<and> filter is_HttpDo l' = []"
proof -
  obtain m where "snd (Close e c u) = u @ m" "filter is_HttpDo m = []"
    using Close_ext [of e c u] by auto
  with assms show ?thesis by simp
qed

lemma main_session_ext:
  "\<exists>l. main_session e c args stdin t = t @ l \<and> filter is_HttpDo l = []"
proof (cases "args = []")
  case True
  let ?t1 = "t @ [GoReadMessages]"
  obtain r rest t2 where s: "InteractiveShell e c stdin ?t1 = (r, rest, t2)"
    by (cases "InteractiveShell e c stdin ?t1")
  obtain l where l: "t2 = t @ (GoReadMessages # l)" "filter is_HttpDo (GoReadMessages # l) = []"
    using InteractiveShell_ext [of e c stdin ?t1] s by auto
  have g: "t2 @ [Stdout ''\<newline>Goodbye!\<newline>''] = t @ (GoReadMessages # l @ [Stdout ''\<newline>Goodbye!\<newline>''])"
    "filter is_HttpDo (GoReadMessages # l @ [Stdout ''\<newline>Goodbye!\<newline>'']) = []"
    using l by simp_all
  show ?thesis
    using True s Close_then_exit_ext [OF l, of e c 2] Close_then_exit_ext [OF g, of e c 0]
    by (cases r) (simp_all add: main_session_def)
next
  case False
  let ?t1 = "t @ [GoReadMessages]"
  let ?cmd = "Join args '' ''"
  obtain r t2 where s: "SendCommand e c ?cmd ?t1 = (r, t2)"
    by (cases "SendCommand e c ?cmd ?t1")
  obtain l where l: "t2 = t @ (GoReadMessages # l)" "filter is_HttpDo (GoReadMessages # l) = []"
    using SendCommand_ext [of e c ?cmd ?t1] s by auto
  have g: "t2 @ [Sleep 2000, Stdout ''\<newline>Goodbye!\<newline>''] =
             t @ (GoReadMessages # l @ [Sleep 2000, Stdout ''\<newline>Goodbye!\<newline>''])"
    "filter is_HttpDo (GoReadMessages # l @ [Sleep 2000, Stdout ''\<newline>Goodbye!\<newline>'']) = []"
    using l by simp_all
  show ?thesis
  proof (cases r)
    case Panic
    with False s Close_then_exit_ext [OF l, of e c 2] show ?thesis
      by (simp add: main_session_def)
  next
    case (Return x)
    show ?thesis
    proof (cases x)
      case None
      with Return False s Close_then_exit_ext [OF g, of e c 0] show ?thesis
        by (simp add: main_session_def)
    next
      case (Some err)
      with Return False s l show ?thesis
        by (simp add: main_session_def)
    qed
  qed
qed

lemma Connect_trace:
  assumes "url_Parse e (baseURL c) = Inr u"
      and "target =
             url_String e
               (u\<lparr>Scheme := (if Scheme u = ''https'' then ''wss'' else ''ws''),
                  Path := ''/terminals/websocket/'' @ terminalID c,
                  RawQuery :=
                    (if token c \<noteq> []
                     then Values_Encode e
                            ((url_Query e
                                (u\<lparr>Scheme := (if Scheme u = ''https'' then ''wss'' else ''ws''),
                                   Path := ''/terminals/websocket/'' @ terminalID c\<rparr>))
                             (''token'' \<mapsto> [token c]))
                     else RawQuery u)\<rparr>)"
  shows "snd (snd (Connect e c t)) =
           t @ [Stdout (''Connecting to: '' @ target @ ''\<newline>''), WsDial target]"
  using assms
  by (simp add: Connect_def Let_def split: sum.splits)

lemma Connect_ext:
  "\<exists>l. snd (snd (Connect e c t)) = t @ l \<and> filter is_HttpDo l = []"
  by (simp add: Connect_def Let_def split: sum.splits)

lemma main_connect_ext:
  "\<exists>l. main_connect e c args stdin t = snd (snd (Connect e c t)) @ l \<and> filter is_HttpDo l = []"
proof -
  obtain r c' t1 where s: "Connect e c t = (r, c', t1)"
    by (cases "Connect e c t")
  show ?thesis
  proof (cases r)
    case None
    with s main_session_ext [of e c' args stdin t1] show ?thesis
      by (simp add: main_connect_def)
  next
    case (Some err)
    with s show ?thesis by (simp add: main_connect_def)
  qed
qed

subsection \<open>main: attaching to an existing terminal\<close>

text \<open>
  Claim C8. When the \<open>-term\<close> flag is not empty, the run of main issues no HTTP request at
  all, so \<open>CreateTerminal\<close> is never called; and when the base URL parses, the run starts by
  announcing the terminal and dialling the target whose path is \<open>/terminals/websocket/\<close>
  followed by the identifier given on the command line.
\<close>

theorem attach_skips_provisioning:
  assumes "termID fl \<noteq> []"
  shows "filter is_HttpDo (main e fl stdin) = []
       \<and> (url_Parse e (TrimSuffix (serverURL fl) ''/'') = Inr u
          \<and> target =
             url_String e
               (u\<lparr>Scheme := (if Scheme u = ''https'' then ''wss'' else ''ws''),
                  Path := ''/terminals/websocket/'' @ termID fl,
                  RawQuery :=
                    (if tokenFlag fl \<noteq> []
                     then Values_Encode e
                            ((url_Query e
                                (u\<lparr>Scheme := (if Scheme u = ''https'' then ''wss'' else ''ws''),
                                   Path := ''/terminals/websocket/'' @ termID fl\<rparr>))
                             (''token'' \<mapsto> [tokenFlag fl]))
                     else RawQuery u)\<rparr>) \<longrightarrow>
          take 3 (main e fl stdin) =
            [Stdout (''Using existing terminal: '' @ termID fl @ ''\<newline>''),
             Stdout (''Connecting to: '' @ target @ ''\<newline>''),
             WsDial target])"
proof -
  let ?c = "(NewJupyterClient (serverURL fl) (tokenFlag fl))\<lparr>terminalID := termID fl\<rparr>"
  let ?t = "[Stdout (''Using existing terminal: '' @ termID fl @ ''\<newline>'')]"
  have m: "main e fl stdin = main_connect e ?c (Args fl) stdin ?t"
    using assms by (simp add: main_def Let_def)
  obtain l where l: "main_connect e ?c (Args fl) stdin ?t = snd (snd (Connect e ?c ?t)) @ l"
      "filter is_HttpDo l = []"
    using main_connect_ext [of e ?c "Args fl" stdin ?t] by auto
  obtain l0 where l0: "snd (snd (Connect e ?c ?t)) = ?t @ l0" "filter is_HttpDo l0 = []"
    using Connect_ext [of e ?c ?t] by auto
  have no_http: "filter is_HttpDo (main e fl stdin) = []"
    using m l l0 by simp
  have dial: "take 3 (main e fl stdin) =
            [Stdout (''Using existing terminal: '' @ termID fl @ ''\<newline>''),
             Stdout (''Connecting to: '' @ target @ ''\<newline>''),
             WsDial target]"
    if p: "url_Parse e (TrimSuffix (serverURL fl) ''/'') = Inr u"
    and tg: "target =
             url_String e
               (u\<lparr>Scheme := (if Scheme u = ''https'' then ''wss'' else ''ws''),
                  Path := ''/terminals/websocket/'' @ termID fl,
                  RawQuery :=
                    (if tokenFlag fl \<noteq> []
                     then Values_Encode e
                            ((url_Query e
                                (u\<lparr>Scheme := (if Scheme u = ''https'' then ''wss'' else ''ws''),
                                   Path := ''/terminals/websocket/'' @ termID fl\<rparr>))
                             (''token'' \<mapsto> [tokenFlag fl]))
                     else RawQuery u)\<rparr>)"
  proof -
    have p': "url_Parse e (baseURL ?c) = Inr u"
      using p by (simp add: NewJupyterClient_def)
    have tg': "target =
             url_String e
               (u\<lparr>Scheme := (if Scheme u = ''https'' then ''wss'' else ''ws''),
                  Path := ''/terminals/websocket/'' @ terminalID ?c,
                  RawQuery :=
                    (if token ?c \<noteq> []
                     then Values_Encode e
                            ((url_Query e
                                (u\<lparr>Scheme := (if Scheme u = ''https'' then ''wss'' else ''ws''),
                                   Path := ''/terminals/websocket/'' @ terminalID ?c\<rparr>))
                             (''token'' \<mapsto> [token ?c]))
                     else RawQuery u)\<rparr>)"
      using tg by (simp add: NewJupyterClient_def)
    have "snd (snd (Connect e ?c ?t)) =
            ?t @ [Stdout (''Connecting to: '' @ target @ ''\<newline>''), WsDial target]"
      by (rule Connect_trace [OF p' tg'])
    with m l show ?thesis by simp
  qed
  from no_http dial show ?thesis by blast
qed


theorem attach_skips_provisioning_witness:
  "termID attach_flags \<noteq> []
   \<and> url_Parse demo_env (TrimSuffix (serverURL attach_flags) ''/'') =
       Inr \<lparr>Scheme = ''http'', Opaque = [], User = None, Host = ''localhost:8888'',
            Path = [], RawPath = [], RawQuery = [], Fragment = []\<rparr>
   \<and> filter is_HttpDo (main demo_env attach_flags []) = []
   \<and> take 3 (main demo_env attach_flags []) =
       [Stdout ''Using existing terminal: 1\<newline>'',
        Stdout ''Connecting to: ws://localhost:8888/terminals/websocket/1\<newline>'',
        WsDial ''ws://localhost:8888/terminals/websocket/1'']"
proof -
  let ?u = "\<lparr>Scheme = ''http'', Opaque = [], User = None, Host = ''localhost:8888'',
            Path = [], RawPath = [], RawQuery = [], Fragment = []\<rparr>"
  let ?target = "''ws://localhost:8888/terminals/websocket/1''"
  have a: "termID attach_flags \<noteq> []"
    by (simp add: attach_flags_def)
  have p: "url_Parse demo_env (TrimSuffix (serverURL attach_flags) ''/'') = Inr ?u"
    by (simp add: attach_flags_def TrimSuffix_def HasSuffix_def demo_env_def demo_Parse_def)
  have tg: "?target =
             url_String demo_env
               (?u\<lparr>Scheme := (if Scheme ?u = ''https'' then ''wss'' else ''ws''),
                  Path := ''/terminals/websocket/'' @ termID attach_flags,
                  RawQuery :=
                    (if tokenFlag attach_flags \<noteq> []
                     then Values_Encode demo_env
                            ((url_Query demo_env
                                (?u\<lparr>Scheme := (if Scheme ?u = ''https'' then ''wss'' else ''ws''),
                                   Path := ''/terminals/websocket/'' @ termID attach_flags\<rparr>))
                             (''token'' \<mapsto> [tokenFlag attach_flags]))
                     else RawQuery ?u)\<rparr>)"
    by (simp add: attach_flags_def demo_env_def demo_String_def)
  have t1: "''Using existing terminal: '' @ termID attach_flags @ ''\<newline>'' =
            ''Using existing terminal: 1\<newline>''"
    by (simp add: attach_flags_def)
  note th = attach_skips_provisioning [OF a, where e = demo_env and stdin = "[]" and u = ?u
      and target = ?target]
  from th p tg have "filter is_HttpDo (main demo_env attach_flags []) = []"
    and "take 3 (main demo_env attach_flags []) =
            [Stdout (''Using existing terminal: '' @ termID attach_flags @ ''\<newline>''),
             Stdout (''Connecting to: '' @ ?target @ ''\<newline>''),
             WsDial ?target]"
    by blast+
  with a p t1 show ?thesis by simp
qed

subsection \<open>main: a send that fails\<close>

lemma InteractiveShell_loop_returns:
  "conn c = Some k \<Longrightarrow> fst (InteractiveShell_loop e c stdin t) = Return ()"
proof (induction stdin arbitrary: t)
  case Nil
  show ?case by simp
next
  case (Cons cmd rest)
  then show ?case
    by (simp add: SendCommand_conn Let_def split: sum.splits option.splits)
qed

lemma interactive_mode_runs_teardown:
  assumes "conn c = Some k"
  shows "\<exists>t2. main_session e c [] stdin t =
               snd (Close e c (t2 @ [Stdout ''\<newline>Goodbye!\<newline>''])) @ [Exit 0]"
proof -
  obtain r rest t2 where s: "InteractiveShell e c stdin (t @ [GoReadMessages]) = (r, rest, t2)"
    by (cases "InteractiveShell e c stdin (t @ [GoReadMessages])")
  have "fst (InteractiveShell e c stdin (t @ [GoReadMessages])) = Return ()"
    unfolding InteractiveShell_def by (rule InteractiveShell_loop_returns [OF assms])
  with s have "r = Return ()"
    by simp
  with s show ?thesis
    by (auto simp: main_session_def)
qed

lemmas run_simps = main_def main_connect_def main_session_def Connect_def Close_def
  SendCommand_def InteractiveShell_def NewJupyterClient_def TrimSuffix_def HasSuffix_def
  attach_flags_def broken_env_def demo_env_def demo_Parse_def demo_String_def demo_Marshal_def
  demo_escape_def wire_stdin_def wire_ls_def wire_exit_def TextMessage_def

text \<open>
  In the interactive mode a failed send is logged and ends the loop; main then prints the
  farewell and the deferred \<open>Close\<close> runs: exit command, 500 ms, close of the connection.
\<close>

lemma interactive_send_failure_runs_teardown:
  "main broken_env (attach_flags\<lparr>Args := []\<rparr>) [''ls'', ''pwd''] =
     [Stdout ''Using existing terminal: 1\<newline>'',
      Stdout ''Connecting to: ws://localhost:8888/terminals/websocket/1\<newline>'',
      WsDial ''ws://localhost:8888/terminals/websocket/1'',
      GoReadMessages,
      Sleep 1000,
      Stdout ''\<newline>Jupyter Terminal Shell\<newline>'',
      Stdout ''Type 'exit' or press Ctrl+C to quit\<newline>'',
      Stdout ''----------------------------------------\<newline>'',
      Stdout ''\<newline>$ '',
      Scan,
      WsWrite (Conn 0) 1 wire_ls,
      Log ''failed to send command: broken pipe'',
      Stdout ''\<newline>Goodbye!\<newline>'',
      WsWrite (Conn 0) 1 wire_exit,
      Sleep 500,
      WsClose (Conn 0),
      Exit 0]"
  by (simp add: run_simps)

text \<open>
  Claim C1 does not hold of the single-shot mode. There the failed send is answered with
  \<open>log.Fatalf\<close>, which leaves the process through \<open>os.Exit(1)\<close> without running the deferred
  \<open>Close\<close>: no exit command is sent and the connection is not closed.
\<close>

theorem single_shot_send_failure_skips_teardown:
  "main broken_env attach_flags [] =
     [Stdout ''Using existing terminal: 1\<newline>'',
      Stdout ''Connecting to: ws://localhost:8888/terminals/websocket/1\<newline>'',
      WsDial ''ws://localhost:8888/terminals/websocket/1'',
      GoReadMessages,
      WsWrite (Conn 0) 1 wire_ls,
      Log ''Failed to send command: broken pipe'',
      Exit 1]"
  by (simp add: run_simps)

end
